theory Spec2Isabelle
  imports Complex_Main "HOL-Library.Multiset"
begin

section \<open>Python values used by \<open>mp_orders.py\<close>\<close>

text \<open>
  A character of the model is a code point below 256. HTTP header values reach the
  program decoded as ISO-8859-1, so for them this is exact; other strings (payment
  ids, body text, JSON strings) are only copied, compared and cut by the program,
  and written to the output file, where what the model does not show of them (a code
  point that cannot be encoded) is the \<open>write_error\<close> of the output side.
\<close>

text \<open>
  The value of \<open>resp.json()\<close>: Python's \<open>None\<close>, \<open>bool\<close>, \<open>int\<close> (unbounded),
  \<open>float\<close>, \<open>str\<close>, \<open>list\<close> and \<open>dict\<close>. A dict is an association list read with
  \<open>map_of\<close>. Of a float the program observes only whether it is zero, and its printed
  form through \<open>str\<close>.
\<close>

datatype json =
    JNull
  | JBool bool
  | JInt int
  | JFloat rat
  | JStr string
  | JArr "json list"
  | JObj "(string \<times> json) list"

text \<open>Python truthiness, as used by \<open>x or y\<close> and \<open>if x\<close>.\<close>

fun truthy :: "json \<Rightarrow> bool" where
  "truthy JNull = False"
| "truthy (JBool b) = b"
| "truthy (JInt i) = (i \<noteq> 0)"
| "truthy (JFloat r) = (r \<noteq> 0)"
| "truthy (JStr s) = (s \<noteq> [])"
| "truthy (JArr xs) = (xs \<noteq> [])"
| "truthy (JObj kvs) = (kvs \<noteq> [])"

text \<open>\<open>a or b\<close> on values.\<close>

definition py_or :: "json \<Rightarrow> json \<Rightarrow> json" where
  "py_or a b = (if truthy a then a else b)"

text \<open>\<open>isinstance(x, dict)\<close>.\<close>

fun is_dict :: "json \<Rightarrow> bool" where
  "is_dict (JObj kvs) = True"
| "is_dict _ = False"

text \<open>\<open>d.get(k)\<close>: the value stored under the key, \<open>None\<close> when the key is absent.\<close>

fun dict_get :: "json \<Rightarrow> string \<Rightarrow> json" where
  "dict_get (JObj kvs) k = (case map_of kvs k of Some v \<Rightarrow> v | None \<Rightarrow> JNull)"
| "dict_get _ k = JNull"

text \<open>Decimal rendering of an integer, as \<open>str\<close> and an f-string print it.\<close>

definition digit_char :: "nat \<Rightarrow> char" where
  "digit_char d = ''0123456789'' ! d"

function nat_digits :: "nat \<Rightarrow> string" where
  "nat_digits n = (if n < 10 then [digit_char n] else nat_digits (n div 10) @ [digit_char (n mod 10)])"
  by pat_completeness auto
termination
  by (relation "measure (\<lambda>n. n)") auto

definition str_int :: "int \<Rightarrow> string" where
  "str_int i = (if i < 0 then CHR ''-'' # nat_digits (nat (- i)) else nat_digits (nat i))"

text \<open>
  \<open>str(v)\<close>. The printed form of a float, a list or a dict is Python's \<open>repr\<close>, which
  is not part of the program: it is the parameter \<open>repr\<close>.
\<close>

fun py_str :: "(json \<Rightarrow> string) \<Rightarrow> json \<Rightarrow> string" where
  "py_str repr JNull = ''None''"
| "py_str repr (JBool b) = (if b then ''True'' else ''False'')"
| "py_str repr (JInt i) = str_int i"
| "py_str repr (JStr s) = s"
| "py_str repr v = repr v"

text \<open>\<open>s.startswith(p)\<close>.\<close>

definition startswith :: "string \<Rightarrow> string \<Rightarrow> bool" where
  "startswith s p = (take (length p) s = p)"

text \<open>
  \<open>s.isdigit()\<close>: a non-empty string of characters of numeric type Digit or Decimal.
  Below 256 these are \<open>0\<close> to \<open>9\<close> and the superscript digits U+00B2, U+00B3, U+00B9.
\<close>

definition ascii_digit :: "char \<Rightarrow> bool" where
  "ascii_digit c = (48 \<le> (of_char c :: nat) \<and> (of_char c :: nat) \<le> 57)"

definition isdigit_char :: "char \<Rightarrow> bool" where
  "isdigit_char c = (ascii_digit c \<or> (of_char c :: nat) = 178 \<or> (of_char c :: nat) = 179
                       \<or> (of_char c :: nat) = 185)"

definition isdigit :: "string \<Rightarrow> bool" where
  "isdigit s = (s \<noteq> [] \<and> list_all isdigit_char s)"

definition decimal_value :: "string \<Rightarrow> nat" where
  "decimal_value s = foldl (\<lambda>acc c. 10 * acc + ((of_char c :: nat) - 48)) 0 s"

text \<open>
  The exceptions that leave the program uncaught. \<open>Unexpected\<close> stands for any class not
  listed, by its name. \<open>Undetermined\<close> is no exception of Python: it marks the one case
  that the model leaves open (see \<open>py_sleep\<close>), and the results below exclude it.
\<close>

datatype py_exception =
    ValueError string
  | OverflowError
  | OSError
  | RecursionError
  | UnicodeEncodeError
  | Unexpected string
  | Undetermined

text \<open>
  \<open>float(s)\<close> on the strings the program passes to it, those with \<open>s.isdigit()\<close>:
  a string of ASCII digits is read in base 10, a superscript digit is rejected with
  \<open>ValueError\<close>. Durations are exact rationals; the rounding of binary floating
  point is not modelled.
\<close>

definition py_float :: "string \<Rightarrow> py_exception + rat" where
  "py_float s = (if s \<noteq> [] \<and> list_all ascii_digit s then Inr (of_nat (decimal_value s))
                 else Inl (ValueError s))"

text \<open>
  \<open>b ** n\<close> for a float \<open>b\<close> and an int \<open>n\<close> of at least 1 (the attempt numbers of the
  loop start at 1): \<open>OverflowError\<close> when the power is beyond the largest float.
\<close>

definition float_max :: rat where
  "float_max = 2 ^ 1024 - 2 ^ 971"

definition py_pow :: "rat \<Rightarrow> int \<Rightarrow> py_exception + rat" where
  "py_pow b n = (if float_max < \<bar>b ^ nat n\<bar> then Inl OverflowError else Inr (b ^ nat n))"

text \<open>
  \<open>time.sleep(d)\<close> (CPython 3.11 on Linux). A negative duration raises \<open>ValueError\<close>. The
  duration is turned into a signed 64-bit count of nanoseconds: from \<open>2 ^ 63\<close>
  nanoseconds on (about 9.22e9 seconds, and infinity) it raises \<open>OverflowError\<close>. The
  deadline, the monotonic clock plus the duration, must fit as well, else the system
  call fails with \<open>OSError\<close>; up to \<open>2 ^ 62\<close> nanoseconds it fits on any machine up for
  less than 146 years. Between the two bounds the outcome depends on the clock, which
  is not modelled: the model answers \<open>Undetermined\<close> there, so that a sleep of the model
  is a sleep of the program and an exception of the model other than \<open>Undetermined\<close> is
  an exception of the program.
\<close>

definition sleep_safe :: rat where
  "sleep_safe = 2 ^ 62 / 10 ^ 9"

definition sleep_overflow :: rat where
  "sleep_overflow = 2 ^ 63 / 10 ^ 9"

definition py_sleep :: "rat \<Rightarrow> py_exception + unit" where
  "py_sleep d =
     (if d < 0 then Inl (ValueError ''sleep length must be non-negative'')
      else if sleep_overflow \<le> d then Inl OverflowError
      else if sleep_safe < d then Inl Undetermined
      else Inr ())"

section \<open>HTTP responses\<close>

text \<open>
  What \<open>resp.json()\<close> does when it is called: it returns the decoded value, or raises
  the \<open>json.JSONDecodeError\<close> that line 62 catches, or raises something else, which
  neither line 62 nor line 102 catches (\<open>RecursionError\<close> on a deeply nested body,
  \<open>ValueError\<close> on an integer of more than 4300 digits). The body has been read when
  \<open>sess.get\<close> returns, so no \<open>requests.RequestException\<close> of the transport comes from
  here.
\<close>

datatype json_result =
    Decoded json
  | JSONDecodeError
  | JsonRaises py_exception

text \<open>
  What the program reads of a \<open>requests.Response\<close>: \<open>status_code\<close>, \<open>headers\<close>,
  \<open>text\<close> (always a \<open>str\<close>, so \<open>resp.text or ""\<close> is \<open>resp.text\<close>), and \<open>json()\<close>.
\<close>

record response =
  status_code :: int
  headers :: "(string \<times> string) list"
  resp_text :: string
  resp_json :: json_result

text \<open>\<open>resp.headers\<close> is a case-insensitive dict: keys are compared in lower case.\<close>

definition lower_char :: "char \<Rightarrow> char" where
  "lower_char c =
     (case map_of (zip ''ABCDEFGHIJKLMNOPQRSTUVWXYZ'' ''abcdefghijklmnopqrstuvwxyz'') c of
        Some l \<Rightarrow> l
      | None \<Rightarrow> c)"

fun headers_get :: "(string \<times> string) list \<Rightarrow> string \<Rightarrow> string option" where
  "headers_get [] k = None"
| "headers_get ((k', v) # hs) k =
     (if map lower_char k' = map lower_char k then Some v else headers_get hs k)"

text \<open>
  The result of one \<open>sess.get(url, timeout=...)\<close>: a response, a
  \<open>requests.RequestException\<close> with its message, or any other exception.
\<close>

datatype get_result =
    Response response
  | RequestException string
  | OtherException py_exception

section \<open>\<open>fetch_payment\<close>\<close>

record row =
  payment_id :: string
  order_id :: string
  external_reference :: string
  http_status :: int
  error :: string

text \<open>The row of a failure, as lines 95 to 101 and 106 to 112 build it.\<close>

abbreviation failure_row :: "string \<Rightarrow> int \<Rightarrow> string \<Rightarrow> row" where
  "failure_row pid status e \<equiv>
     \<lparr>payment_id = pid, order_id = '''', external_reference = '''', http_status = status, error = e\<rparr>"

text \<open>What a worker does that is visible from outside: requests and sleeps.\<close>

datatype event = Get int | Sleep rat

text \<open>How one iteration of the loop ends: \<open>continue\<close>, \<open>return\<close>, or an uncaught exception.\<close>

datatype step = Continue | Return row | Raise py_exception

text \<open>\<open>time.sleep(d); continue\<close>.\<close>

definition sleep_continue :: "rat \<Rightarrow> event list \<times> step" where
  "sleep_continue d = (case py_sleep d of Inl e \<Rightarrow> ([], Raise e) | Inr _ \<Rightarrow> ([Sleep d], Continue))"

text \<open>Line 55: \<open>resp.headers.get("Content-Type", "")\<close>.\<close>

definition content_type :: "response \<Rightarrow> string" where
  "content_type resp =
     (case headers_get (headers resp) ''Content-Type'' of Some v \<Rightarrow> v | None \<Rightarrow> '''')"

text \<open>
  Lines 57 to 66: \<open>data\<close> and \<open>err\<close>. \<open>data\<close> stays \<open>None\<close> unless the content type
  starts with \<open>application/json\<close> and the body decodes.
\<close>

definition parse_body :: "response \<Rightarrow> py_exception + json \<times> string option" where
  "parse_body resp =
     (if startswith (content_type resp) ''application/json'' then
        (case resp_json resp of
           Decoded d \<Rightarrow> Inr (d, None)
         | JSONDecodeError \<Rightarrow> Inr (JNull, Some ''Invalid JSON in response'')
         | JsonRaises x \<Rightarrow> Inl x)
      else if \<not> (200 \<le> status_code resp \<and> status_code resp < 300) then
        Inr (JNull, Some (take 500 (resp_text resp)))
      else Inr (JNull, None))"

text \<open>Line 69: the statuses that are retried.\<close>

definition retryable :: "int \<Rightarrow> bool" where
  "retryable status = (status \<in> {429, 500, 502, 503, 504})"

text \<open>Lines 70 and 71: \<open>sleep_s\<close>.\<close>

definition retry_delay :: "response \<Rightarrow> rat \<Rightarrow> int \<Rightarrow> py_exception + rat" where
  "retry_delay resp backoff attempt =
     (case headers_get (headers resp) ''Retry-After'' of
        Some retry_after \<Rightarrow>
          if retry_after \<noteq> [] \<and> isdigit retry_after then py_float retry_after
          else py_pow backoff attempt
      | None \<Rightarrow> py_pow backoff attempt)"

text \<open>Line 92: \<open>data.get("message") or data.get("error") or data.get("cause")\<close>.\<close>

definition api_msg :: "json \<Rightarrow> json" where
  "api_msg data = py_or (py_or (dict_get data ''message'') (dict_get data ''error''))
                        (dict_get data ''cause'')"

text \<open>Lines 54 to 101: the body of the \<open>try\<close> once \<open>sess.get\<close> has returned \<open>resp\<close>.\<close>

definition on_response ::
  "(json \<Rightarrow> string) \<Rightarrow> string \<Rightarrow> int \<Rightarrow> rat \<Rightarrow> int \<Rightarrow> response \<Rightarrow> event list \<times> step" where
  "on_response repr pid max_retries backoff attempt resp =
    (let status = status_code resp in
     case parse_body resp of
       Inl x \<Rightarrow> ([], Raise x)
     | Inr (data, err) \<Rightarrow>
         if retryable status \<and> attempt < max_retries then
           (case retry_delay resp backoff attempt of
              Inl e \<Rightarrow> ([], Raise e)
            | Inr sleep_s \<Rightarrow> sleep_continue sleep_s)
         else if 200 \<le> status \<and> status < 300 \<and> is_dict data then
           (let order = dict_get data ''order'';
                oid = (if is_dict order
                       then py_str repr (py_or (dict_get order ''id'') (JStr ''''))
                       else '''');
                ext = py_str repr (py_or (dict_get data ''external_reference'') (JStr ''''))
            in ([], Return \<lparr>payment_id = pid, order_id = oid, external_reference = ext,
                             http_status = status, error = ''''\<rparr>))
         else
           (let err' = (if is_dict data \<and> truthy (api_msg data)
                        then Some (py_str repr (api_msg data))
                        else err)
            in ([], Return \<lparr>payment_id = pid, order_id = '''', external_reference = '''',
                             http_status = status,
                             error = (case err' of
                                        Some e \<Rightarrow>
                                          if e \<noteq> [] then e else ''HTTP '' @ str_int status
                                      | None \<Rightarrow> ''HTTP '' @ str_int status)\<rparr>)))"

text \<open>Lines 102 to 112: the handler of \<open>requests.RequestException\<close>.\<close>

definition on_request_exception ::
  "string \<Rightarrow> int \<Rightarrow> rat \<Rightarrow> int \<Rightarrow> string \<Rightarrow> event list \<times> step" where
  "on_request_exception pid max_retries backoff attempt e =
    (if attempt < max_retries then
       (case py_pow backoff attempt of
          Inl x \<Rightarrow> ([], Raise x)
        | Inr d \<Rightarrow> sleep_continue d)
     else ([], Return \<lparr>payment_id = pid, order_id = '''', external_reference = '''',
                       http_status = 0, error = ''Request failed: '' @ e\<rparr>))"

text \<open>One iteration of the loop, given what \<open>sess.get\<close> did on this attempt.\<close>

definition attempt_body ::
  "(json \<Rightarrow> string) \<Rightarrow> string \<Rightarrow> int \<Rightarrow> rat \<Rightarrow> int \<Rightarrow> get_result \<Rightarrow> event list \<times> step" where
  "attempt_body repr pid max_retries backoff attempt g =
    (case g of
       Response resp \<Rightarrow> on_response repr pid max_retries backoff attempt resp
     | RequestException e \<Rightarrow> on_request_exception pid max_retries backoff attempt e
     | OtherException x \<Rightarrow> ([], Raise x))"

text \<open>How the \<open>for\<close> loop ends: a \<open>return\<close> inside it, an exception, or its range used up.\<close>

datatype loop_exit = Returned row | Raised py_exception | Exhausted

text \<open>
  The loop over the attempt numbers still to run. \<open>net attempt\<close> is what \<open>sess.get\<close>
  does on that attempt of this worker.
\<close>

fun fetch_loop ::
  "(json \<Rightarrow> string) \<Rightarrow> (int \<Rightarrow> get_result) \<Rightarrow> string \<Rightarrow> int \<Rightarrow> rat \<Rightarrow> int list
     \<Rightarrow> event list \<times> loop_exit" where
  "fetch_loop repr net pid max_retries backoff [] = ([], Exhausted)"
| "fetch_loop repr net pid max_retries backoff (attempt # rest) =
     (case attempt_body repr pid max_retries backoff attempt (net attempt) of
        (evs, Continue) \<Rightarrow>
          (case fetch_loop repr net pid max_retries backoff rest of
             (evs', r) \<Rightarrow> (Get attempt # evs @ evs', r))
      | (evs, Return r) \<Rightarrow> (Get attempt # evs, Returned r)
      | (evs, Raise x) \<Rightarrow> (Get attempt # evs, Raised x))"

text \<open>The row returned after the loop (lines 114 to 121).\<close>

definition fallback_row :: "string \<Rightarrow> row" where
  "fallback_row pid = \<lparr>payment_id = pid, order_id = '''', external_reference = '''',
                       http_status = 0, error = ''Exhausted retries''\<rparr>"

text \<open>
  \<open>fetch_payment\<close>: the loop over \<open>range(1, max_retries + 1)\<close>, then the fallback.
  The result is the trace of the worker and the row it returns or the exception it
  raises. The session arguments (token, proxies, timeout, pool size) only reach
  \<open>sess.get\<close>, which is \<open>net\<close>.
\<close>

definition fetch_payment ::
  "(json \<Rightarrow> string) \<Rightarrow> (int \<Rightarrow> get_result) \<Rightarrow> string \<Rightarrow> int \<Rightarrow> rat
     \<Rightarrow> event list \<times> (py_exception + row)" where
  "fetch_payment repr net pid max_retries backoff =
    (case fetch_loop repr net pid max_retries backoff [1..max_retries] of
       (evs, Returned r) \<Rightarrow> (evs, Inr r)
     | (evs, Raised x) \<Rightarrow> (evs, Inl x)
     | (evs, Exhausted) \<Rightarrow> (evs, Inr (fallback_row pid)))"

section \<open>\<open>main\<close>: dispatch and the output file\<close>

text \<open>The output CSV: the header line, then one line per row written.\<close>

datatype csv_line = Header | Data row

text \<open>
  The state of the collecting loop of \<open>main\<close>: the lines written to the file so far,
  the counter \<open>processed\<close>, and the progress lines printed (\<open>(processed, total)\<close> each).
\<close>

record run_state =
  csvfile :: "csv_line list"
  processed :: nat
  progress :: "(nat \<times> nat) list"

text \<open>
  What \<open>main\<close> meets outside the workers; \<open>None\<close> is success, \<open>Some x\<close> is \<open>x\<close> raised.
  \<^item> \<open>open_error\<close>: lines 162 to 165, opening the output file and writing the header
    (\<open>OSError\<close> on a path that cannot be written).
  \<^item> \<open>submit_error\<close>: lines 168 to 179, submitting the futures (\<open>RuntimeError\<close> when
    a thread cannot be started).
  \<^item> \<open>write_error n r\<close>: lines 184 and 185 for the \<open>n\<close>-th row \<open>r\<close>, \<open>writerow\<close> and
    \<open>flush\<close> (\<open>UnicodeEncodeError\<close> when a field holds a lone surrogate decoded from
    JSON, which UTF-8 cannot encode and the strings of this model do not show;
    \<open>OSError\<close>). The line is encoded before any of it is written, so a failed write
    leaves the file as it was.
  \<^item> \<open>print_error n\<close>: line 189, the progress line after the \<open>n\<close>-th row.
\<close>

record run_io =
  open_error :: "py_exception option"
  submit_error :: "py_exception option"
  write_error :: "nat \<Rightarrow> row \<Rightarrow> py_exception option"
  print_error :: "nat \<Rightarrow> py_exception option"

text \<open>
  Lines 181 to 189: the loop over \<open>as_completed(futures)\<close>, given the results of the
  futures in the order they complete. \<open>future.result()\<close> returns the worker's row or
  raises the worker's exception again, which leaves the loop and \<open>main\<close>, as does an
  exception of the write or of the print.
\<close>

fun collect ::
  "run_io \<Rightarrow> nat \<Rightarrow> (py_exception + row) list \<Rightarrow> run_state \<Rightarrow> run_state \<times> py_exception option" where
  "collect io tot [] st = (st, None)"
| "collect io tot (Inl x # rest) st = (st, Some x)"
| "collect io tot (Inr r # rest) st =
     (let p = processed st + 1 in
      case write_error io p r of
        Some x \<Rightarrow> (st, Some x)
      | None \<Rightarrow>
          (let st' = \<lparr>csvfile = csvfile st @ [Data r], processed = p, progress = progress st\<rparr> in
           if p mod 10 = 0 \<or> p = tot then
             (case print_error io p of
                Some x \<Rightarrow> (st', Some x)
              | None \<Rightarrow> collect io tot rest (st'\<lparr>progress := progress st @ [(p, tot)]\<rparr>))
           else collect io tot rest st'))"

text \<open>
  How \<open>main\<close> ends: without ids (nothing is written), or with the state of the output
  and the exception that ended it, if any.
\<close>

datatype main_result = NoIds | Ran run_state "py_exception option"

text \<open>
  \<open>main\<close> from line 152 to line 189, for the ids read from the input file in a run
  that has a token (line 145 ends the run otherwise, before the file is read).
  Interrupts and the exhaustion of memory are not modelled. \<open>workers\<close> is
  \<open>args.workers\<close>: \<open>ThreadPoolExecutor\<close> raises \<open>ValueError\<close> unless it is positive, after
  the header has been written. One future is submitted per element of \<open>payment_ids\<close>
  (the dict of futures is keyed by the future, so equal ids stay apart); \<open>nets i\<close> is
  the network as the worker of the \<open>i\<close>-th future meets it. \<open>order\<close> is the order in
  which \<open>as_completed\<close> yields the futures: by its contract a permutation of their
  indices. The backoff passed is \<open>1.2\<close>.
\<close>

definition main ::
  "(json \<Rightarrow> string) \<Rightarrow> (nat \<Rightarrow> int \<Rightarrow> get_result) \<Rightarrow> run_io \<Rightarrow> int \<Rightarrow> int \<Rightarrow> string list
     \<Rightarrow> nat list \<Rightarrow> main_result" where
  "main repr nets io workers retries payment_ids order =
    (let tot = length payment_ids in
     if tot = 0 then NoIds
     else
       (case open_error io of
          Some x \<Rightarrow> Ran \<lparr>csvfile = [], processed = 0, progress = []\<rparr> (Some x)
        | None \<Rightarrow>
            if workers \<le> 0 then
              Ran \<lparr>csvfile = [Header], processed = 0, progress = []\<rparr>
                  (Some (ValueError ''max_workers must be greater than 0''))
            else
              (case submit_error io of
                 Some x \<Rightarrow> Ran \<lparr>csvfile = [Header], processed = 0, progress = []\<rparr> (Some x)
               | None \<Rightarrow>
              (let futures = map (\<lambda>(i, pid). snd (fetch_payment repr (nets i) pid retries (6 / 5)))
                                 (enumerate 0 payment_ids)
               in case collect io tot (map (\<lambda>i. futures ! i) order)
                         \<lparr>csvfile = [Header], processed = 0, progress = []\<rparr> of
                    (st, x) \<Rightarrow> Ran st x))))"

text \<open>A run in which nothing fails outside the workers.\<close>

definition io_ok :: run_io where
  "io_ok = \<lparr>open_error = None, submit_error = None, write_error = (\<lambda>n r. None),
            print_error = (\<lambda>n. None)\<rparr>"

text \<open>The rows of the output file after the run, in the order written.\<close>

fun rows_of :: "csv_line list \<Rightarrow> row list" where
  "rows_of [] = []"
| "rows_of (Header # ls) = rows_of ls"
| "rows_of (Data r # ls) = r # rows_of ls"

fun rows_written :: "main_result \<Rightarrow> row list" where
  "rows_written NoIds = []"
| "rows_written (Ran st x) = rows_of (csvfile st)"

text \<open>\<open>p in s\<close> on strings: \<open>p\<close> occurs in \<open>s\<close>.\<close>

definition contains :: "string \<Rightarrow> string \<Rightarrow> bool" where
  "contains s p = list_ex (\<lambda>i. startswith (drop i s) p) [0..<Suc (length s)]"

section \<open>Auxiliary facts\<close>

subsection \<open>One iteration and the loop\<close>

lemma not_retryable_2xx: "200 \<le> s \<Longrightarrow> s < 300 \<Longrightarrow> \<not> retryable s"
  by (auto simp: retryable_def)

lemma fetch_loop_Return:
  "attempt_body repr pid m b a (net a) = (evs, Return r) \<Longrightarrow>
   fetch_loop repr net pid m b (a # rest) = (Get a # evs, Returned r)"
  by simp

lemma fetch_loop_Raise:
  "attempt_body repr pid m b a (net a) = (evs, Raise x) \<Longrightarrow>
   fetch_loop repr net pid m b (a # rest) = (Get a # evs, Raised x)"
  by simp

lemma fetch_loop_Continue:
  "attempt_body repr pid m b a (net a) = (evs, Continue) \<Longrightarrow>
   fetch_loop repr net pid m b (a # rest) =
     (Get a # evs @ fst (fetch_loop repr net pid m b rest), snd (fetch_loop repr net pid m b rest))"
  by (simp split: prod.splits)

lemma on_response_raises:
  "parse_body resp = Inl x \<Longrightarrow> on_response repr pid m b a resp = ([], Raise x)"
  by (simp add: on_response_def)

lemma on_response_success:
  assumes "200 \<le> status_code resp" and "status_code resp < 300"
    and "startswith (content_type resp) ''application/json''"
    and "resp_json resp = Decoded (JObj kvs)"
  shows "on_response repr pid m b a resp =
    ([], Return \<lparr>payment_id = pid,
       order_id = (if is_dict (dict_get (JObj kvs) ''order'')
                      \<and> truthy (dict_get (dict_get (JObj kvs) ''order'') ''id'')
                   then py_str repr (dict_get (dict_get (JObj kvs) ''order'') ''id'') else ''''),
       external_reference = (if truthy (dict_get (JObj kvs) ''external_reference'')
                   then py_str repr (dict_get (JObj kvs) ''external_reference'') else ''''),
       http_status = status_code resp, error = ''''\<rparr>)"
  using assms not_retryable_2xx[of "status_code resp"]
  by (simp add: on_response_def parse_body_def py_or_def Let_def)


lemma sleep_safe_less_overflow: "sleep_safe < sleep_overflow"
  by (simp add: sleep_safe_def sleep_overflow_def)

lemma sleep_overflow_le_float_max: "sleep_overflow \<le> float_max"
  by (simp add: sleep_overflow_def float_max_def)

lemma sleep_continue_ok:
  "0 \<le> d \<Longrightarrow> d \<le> sleep_safe \<Longrightarrow> sleep_continue d = ([Sleep d], Continue)"
  using sleep_safe_less_overflow by (simp add: sleep_continue_def py_sleep_def)

lemma sleep_continue_overflow:
  "sleep_overflow \<le> d \<Longrightarrow> sleep_continue d = ([], Raise OverflowError)"
proof -
  assume h: "sleep_overflow \<le> d"
  have "0 < sleep_overflow" by (simp add: sleep_overflow_def)
  with h have "\<not> d < 0" by simp
  with h show ?thesis by (simp add: sleep_continue_def py_sleep_def)
qed

lemma py_pow_ok:
  assumes "0 \<le> b" and "b ^ nat n \<le> sleep_safe"
  shows "py_pow b n = Inr (b ^ nat n)"
proof -
  from assms(1) have "0 \<le> b ^ nat n" by simp
  moreover from assms(2) sleep_safe_less_overflow sleep_overflow_le_float_max
  have "b ^ nat n \<le> float_max" by simp
  ultimately show ?thesis by (simp add: py_pow_def)
qed

lemma backoff_sleep_ok:
  assumes "0 \<le> b" and "b ^ nat n \<le> sleep_safe"
  shows "(case py_pow b n of Inl x \<Rightarrow> ([], Raise x) | Inr d \<Rightarrow> sleep_continue d)
         = ([Sleep (b ^ nat n)], Continue)"
  using assms by (simp add: py_pow_ok sleep_continue_ok)

lemma backoff_sleep_overflow:
  assumes "0 \<le> b" and "sleep_overflow \<le> b ^ nat n"
  shows "(case py_pow b n of Inl x \<Rightarrow> ([], Raise x) | Inr d \<Rightarrow> sleep_continue d)
         = ([], Raise OverflowError)"
  using assms by (simp add: py_pow_def sleep_continue_overflow)

lemma on_response_retry:
  assumes "parse_body resp = Inr p" and "retryable (status_code resp)" and "a < m"
  shows "on_response repr pid m b a resp =
     (case retry_delay resp b a of Inl e \<Rightarrow> ([], Raise e) | Inr d \<Rightarrow> sleep_continue d)"
  using assms by (cases p) (simp add: on_response_def Let_def)

lemma attempt_body_payment_id:
  "attempt_body repr pid m b a g = (evs, Return r) \<Longrightarrow> payment_id r = pid"
  by (auto simp: attempt_body_def on_response_def on_request_exception_def sleep_continue_def
       Let_def split: get_result.splits prod.splits if_splits sum.splits)

lemma attempt_body_last_not_Continue:
  "attempt_body repr pid m b m g \<noteq> (evs, Continue)"
  by (auto simp: attempt_body_def on_response_def on_request_exception_def
       Let_def split: get_result.splits prod.splits if_splits sum.splits)

lemma fetch_loop_payment_id:
  "snd (fetch_loop repr net pid m b as) = Returned r \<Longrightarrow> payment_id r = pid"
proof (induction as)
  case Nil
  then show ?case by simp
next
  case (Cons a as)
  obtain evs s where ab: "attempt_body repr pid m b a (net a) = (evs, s)"
    by (cases "attempt_body repr pid m b a (net a)")
  show ?case
  proof (cases s)
    case Continue
    with ab Cons show ?thesis by (simp split: prod.splits)
  next
    case (Return r')
    with ab Cons.prems have "r' = r" by simp
    with ab Return show ?thesis using attempt_body_payment_id by blast
  next
    case (Raise x)
    with ab Cons.prems show ?thesis by simp
  qed
qed

lemma fetch_payment_payment_id:
  "snd (fetch_payment repr net pid m b) = Inr r \<Longrightarrow> payment_id r = pid"
  using fetch_loop_payment_id[of repr net pid m b "[1..m]" r]
  by (auto simp: fetch_payment_def fallback_row_def split: prod.splits loop_exit.splits)

lemma fetch_loop_not_exhausted:
  "as \<noteq> [] \<Longrightarrow> last as = m \<Longrightarrow> snd (fetch_loop repr net pid m b as) \<noteq> Exhausted"
proof (induction as)
  case Nil
  then show ?case by simp
next
  case (Cons a as)
  obtain evs s where ab: "attempt_body repr pid m b a (net a) = (evs, s)"
    by (cases "attempt_body repr pid m b a (net a)")
  show ?case
  proof (cases s)
    case Continue
    have "as \<noteq> []"
    proof
      assume "as = []"
      with Cons.prems have "a = m" by simp
      with ab Continue show False using attempt_body_last_not_Continue by blast
    qed
    with Cons have "snd (fetch_loop repr net pid m b as) \<noteq> Exhausted" by simp
    with ab Continue show ?thesis by (auto split: prod.splits)
  next
    case (Return r)
    with ab show ?thesis by simp
  next
    case (Raise x)
    with ab show ?thesis by simp
  qed
qed

lemma fetch_payment_in_loop:
  assumes "1 \<le> m"
  shows "snd (fetch_loop repr net pid m b [1..m]) \<noteq> Exhausted"
proof -
  have "[1..m] \<noteq> []" using assms by simp
  moreover have "last [1..m] = m" using assms by (simp add: upto_rec2)
  ultimately show ?thesis by (rule fetch_loop_not_exhausted)
qed

lemma fetch_loop_starts_with_Get:
  "\<exists>evs. fst (fetch_loop repr net pid m b (x # rest)) = Get x # evs"
  by (auto split: prod.splits step.splits)

subsection \<open>The collecting loop\<close>

lemma collect_prefix:
  assumes "\<forall>n r. write_error io n r = None" and "\<forall>n. print_error io n = None"
  shows "\<exists>st'. collect io tot (map Inr rs @ rest) st = collect io tot rest st'
        \<and> csvfile st' = csvfile st @ map Data rs
        \<and> processed st' = processed st + length rs"
proof (induction rs arbitrary: st)
  case Nil
  show ?case by (rule exI[of _ st]) simp
next
  case (Cons r rs)
  let ?p = "processed st + 1"
  let ?st = "\<lparr>csvfile = csvfile st @ [Data r], processed = ?p,
              progress = (if ?p mod 10 = 0 \<or> ?p = tot then progress st @ [(?p, tot)] else progress st)\<rparr>"
  have step: "collect io tot (map Inr (r # rs) @ rest) st = collect io tot (map Inr rs @ rest) ?st"
    using assms by (simp add: Let_def)
  from Cons.IH[of ?st] obtain st' where
    "collect io tot (map Inr rs @ rest) ?st = collect io tot rest st'"
    "csvfile st' = csvfile ?st @ map Data rs" "processed st' = processed ?st + length rs"
    by blast
  with step show ?case by auto
qed

lemma rows_of_Data: "rows_of (Header # map Data rs) = rs"
  by (induction rs) auto

subsection \<open>Evaluation at concrete inputs\<close>

lemmas fetch_eval =
  fetch_payment_def attempt_body_def on_response_def on_request_exception_def parse_body_def
  content_type_def retryable_def retry_delay_def sleep_continue_def py_sleep_def py_float_def
  py_pow_def float_max_def sleep_safe_def sleep_overflow_def
  isdigit_def isdigit_char_def ascii_digit_def decimal_value_def startswith_def lower_char_def
  py_or_def api_msg_def Let_def upto_rec1 fallback_row_def

lemma str_int_0: "str_int 0 = ''0''" by code_simp

lemma contains_append: "contains (p @ s) s"
proof -
  have "length p \<in> set [0..<Suc (length (p @ s))]" by simp
  moreover have "startswith (drop (length p) (p @ s)) s" by (simp add: startswith_def)
  ultimately show ?thesis unfolding contains_def list_ex_iff by blast
qed


subsection \<open>Retrying and terminal failures\<close>

lemma retry_delay_header:
  assumes "headers_get (headers resp) ''Retry-After'' = Some s" and "s \<noteq> []" and "list_all ascii_digit s"
  shows "retry_delay resp b a = Inr (of_nat (decimal_value s))"
  using assms by (auto simp: retry_delay_def py_float_def isdigit_def isdigit_char_def list_all_iff)

lemma retry_after_sleep:
  assumes "net a = Response resp" and "parse_body resp = Inr p"
    and "retryable (status_code resp)" and "a < m"
    and "headers_get (headers resp) ''Retry-After'' = Some s" and "s \<noteq> []" and "list_all ascii_digit s"
    and "of_nat (decimal_value s) \<le> sleep_safe"
  shows "fetch_loop repr net pid m b (a # rest) =
           (Get a # Sleep (of_nat (decimal_value s)) # fst (fetch_loop repr net pid m b rest),
            snd (fetch_loop repr net pid m b rest))"
proof -
  have "attempt_body repr pid m b a (net a) = ([Sleep (of_nat (decimal_value s))], Continue)"
    using assms
    by (simp add: attempt_body_def on_response_retry[where p = p] retry_delay_header sleep_continue_ok)
  then show ?thesis by (simp split: prod.splits)
qed

lemma retry_backoff_sleep:
  assumes "net a = Response resp" and "parse_body resp = Inr p"
    and "retryable (status_code resp)" and "a < m"
    and "0 \<le> b" and "b ^ nat a \<le> sleep_safe"
    and "headers_get (headers resp) ''Retry-After'' = None
           \<or> (\<exists>s. headers_get (headers resp) ''Retry-After'' = Some s \<and> \<not> isdigit s)"
  shows "fetch_loop repr net pid m b (a # rest) =
           (Get a # Sleep (b ^ nat a) # fst (fetch_loop repr net pid m b rest),
            snd (fetch_loop repr net pid m b rest))"
proof -
  from assms(7) have "retry_delay resp b a = py_pow b a"
    by (auto simp: retry_delay_def)
  with assms(5,6) have "retry_delay resp b a = Inr (b ^ nat a)"
    by (simp add: py_pow_ok)
  with assms(1-6) have "attempt_body repr pid m b a (net a) = ([Sleep (b ^ nat a)], Continue)"
    by (simp add: attempt_body_def on_response_retry[where p = p] sleep_continue_ok)
  then show ?thesis by (simp split: prod.splits)
qed


lemma json_exception_leaves_worker:
  assumes "net a = Response resp"
    and "startswith (content_type resp) ''application/json''"
    and "resp_json resp = JsonRaises x"
  shows "fetch_loop repr net pid m b (a # rest) = ([Get a], Raised x)"
  using assms by (simp add: attempt_body_def on_response_raises parse_body_def)

lemma backoff_126_overflows: "sleep_overflow \<le> (6 / 5) ^ nat 126"
proof -
  have e: "(6 / 5 :: rat) ^ 126 = 6 ^ 126 / 5 ^ 126" by (simp only: power_divide)
  have "(2 ^ 63 / 10 ^ 9 :: rat) \<le> 6 ^ 126 / 5 ^ 126" by (simp add: divide_simps)
  then have "(2 ^ 63 / 10 ^ 9 :: rat) \<le> (6 / 5) ^ 126" by (simp only: e)
  then show ?thesis by (simp add: sleep_overflow_def)
qed

section \<open>The claims\<close>

subsection \<open>C1: one row per identifier\<close>

text \<open>
  C1, as amended. For every list of identifiers and every order in which the futures
  complete: if the worker count is positive, the output file opens, the futures are
  submitted, no write and no progress print raises, and every worker returns a row
  (none raises), then the output
  file holds after the header exactly the workers' rows in completion order: one row
  per submitted identifier, as many rows as identifiers, and the payment ids of the
  rows are the input identifiers with their multiplicities. How many attempts a worker
  makes plays no part: the network \<open>nets\<close> is arbitrary.
\<close>

theorem main_one_row_per_identifier:
  assumes perm: "mset order = mset [0..<length ids]"
    and ret: "\<forall>i<length ids. snd (fetch_payment repr (nets i) (ids ! i) retries (6 / 5)) = Inr (out i)"
    and workers: "0 < workers"
    and opened: "open_error io = None"
    and submitted: "submit_error io = None"
    and writes: "\<forall>n r. write_error io n r = None"
    and prints: "\<forall>n. print_error io n = None"
  shows "rows_written (main repr nets io workers retries ids order) = map out order
       \<and> mset (map payment_id (rows_written (main repr nets io workers retries ids order))) = mset ids
       \<and> length (rows_written (main repr nets io workers retries ids order)) = length ids"
proof (cases "ids = []")
  case True
  with perm have "order = []" by simp
  with True show ?thesis by (simp add: main_def)
next
  case False
  let ?futures = "map (\<lambda>(i, pid). snd (fetch_payment repr (nets i) pid retries (6 / 5)))
                      (enumerate 0 ids)"
  let ?init = "\<lparr>csvfile = [Header], processed = 0, progress = []\<rparr>"
  have in_range: "i < length ids" if "i \<in> set order" for i
  proof -
    from perm have "set order = set [0..<length ids]" by (rule mset_eq_setD)
    with that show ?thesis by simp
  qed
  have results: "map (\<lambda>i. ?futures ! i) order = map Inr (map out order)"
    using in_range ret by (simp add: nth_enumerate_eq)
  have unfold_main: "main repr nets io workers retries ids order =
      (case collect io (length ids) (map (\<lambda>i. ?futures ! i) order) ?init of (st, x) \<Rightarrow> Ran st x)"
    using False workers opened submitted by (simp add: main_def Let_def)
  from collect_prefix[OF writes prints, of "length ids" "map out order" "[]" ?init]
  obtain st' where coll: "collect io (length ids) (map Inr (map out order)) ?init = (st', None)"
    and written: "csvfile st' = Header # map Data (map out order)"
    by auto
  have "main repr nets io workers retries ids order = Ran st' None"
    by (simp only: unfold_main results coll prod.case)
  with written have rows: "rows_written (main repr nets io workers retries ids order) = map out order"
    by (simp only: rows_written.simps rows_of_Data)
  have pid: "payment_id (out i) = ids ! i" if "i < length ids" for i
    using ret that fetch_payment_payment_id by blast
  have "mset (map payment_id (map out order)) = image_mset (\<lambda>i. payment_id (out i)) (mset order)"
    by (simp add: comp_def)
  also have "\<dots> = mset (map (\<lambda>i. payment_id (out i)) [0..<length ids])"
    using perm by simp
  also have "\<dots> = mset (map (\<lambda>i. ids ! i) [0..<length ids])"
  proof -
    have "map (\<lambda>i. payment_id (out i)) [0..<length ids] = map (\<lambda>i. ids ! i) [0..<length ids]"
      by (rule map_cong) (simp_all add: pid)
    then show ?thesis by (simp only:)
  qed
  also have "\<dots> = mset ids"
    by (simp add: map_nth)
  finally have ids: "mset (map payment_id (map out order)) = mset ids" .
  from perm have "length order = length ids"
    using mset_eq_length by fastforce
  with rows ids show ?thesis by simp
qed

theorem main_one_row_per_identifier_witness:
  "mset [1, 0] = mset [0..<length [''A'', ''B'']]
   \<and> rows_written
        (main (\<lambda>v. [])
           (\<lambda>i attempt. if i = 0 \<and> attempt = 1
              then Response \<lparr>status_code = 503, headers = [], resp_text = ''busy'',
                     resp_json = JSONDecodeError\<rparr>
              else Response \<lparr>status_code = 200, headers = [(''Content-Type'', ''application/json'')],
                     resp_text = [],
                     resp_json = Decoded (JObj [(''order'', JObj [(''id'', JInt 7)])])\<rparr>)
           io_ok 5 3 [''A'', ''B''] [1, 0])
     = [\<lparr>payment_id = ''B'', order_id = ''7'', external_reference = '''', http_status = 200, error = ''''\<rparr>,
        \<lparr>payment_id = ''A'', order_id = ''7'', external_reference = '''', http_status = 200, error = ''''\<rparr>]"
proof -
  let ?nets = "\<lambda>(i::nat) (attempt::int). if i = 0 \<and> attempt = 1
              then Response \<lparr>status_code = 503, headers = [], resp_text = ''busy'',
                     resp_json = JSONDecodeError\<rparr>
              else Response \<lparr>status_code = 200, headers = [(''Content-Type'', ''application/json'')],
                     resp_text = [],
                     resp_json = Decoded (JObj [(''order'', JObj [(''id'', JInt 7)])])\<rparr>"
  let ?out = "\<lambda>i. \<lparr>payment_id = [''A'', ''B''] ! i, order_id = ''7'', external_reference = '''',
                      http_status = 200, error = ''''\<rparr>"
  have seven: "str_int 7 = ''7''" by code_simp
  have h1: "mset [1, 0] = mset [0..<length [''A'', ''B'']]" by (simp add: upt_rec)
  have h2: "\<forall>i<length [''A'', ''B''].
              snd (fetch_payment (\<lambda>v. []) (?nets i) ([''A'', ''B''] ! i) 3 (6 / 5)) = Inr (?out i)"
    by (simp add: All_less_Suc fetch_eval seven)
  have h3: "(0::int) < 5" by simp
  have h4: "open_error io_ok = None" by (simp add: io_ok_def)
  have h4': "submit_error io_ok = None" by (simp add: io_ok_def)
  have h5: "\<forall>n r. write_error io_ok n r = None" by (simp add: io_ok_def)
  have h6: "\<forall>n. print_error io_ok n = None" by (simp add: io_ok_def)
  from main_one_row_per_identifier[OF h1 h2 h3 h4 h4' h5 h6] h1 show ?thesis by simp
qed

text \<open>
  C1 as stated fails: the output side works, but the reply to the only worker is a 200
  whose JSON body is nested 2000 deep, so \<open>resp.json()\<close> raises \<open>RecursionError\<close>, which
  no handler catches; \<open>future.result()\<close> raises it again in \<open>main\<close>, and the file keeps
  its header and no row for the one identifier.
\<close>

theorem main_row_missing_counterexample:
  "main (\<lambda>v. [])
     (\<lambda>i attempt. Response \<lparr>status_code = 200, headers = [(''Content-Type'', ''application/json'')],
                             resp_text = replicate 2000 (CHR ''['') @ replicate 2000 (CHR '']''),
                             resp_json = JsonRaises RecursionError\<rparr>)
     io_ok 5 3 [''A''] [0]
   = Ran \<lparr>csvfile = [Header], processed = 0, progress = []\<rparr> (Some RecursionError)"
  by (simp add: main_def enumerate_eq_zip fetch_eval io_ok_def)

subsection \<open>C2: exceptions raised in a worker\<close>

text \<open>
  C2, as amended. An exception of \<open>sess.get\<close> other than
  \<open>requests.RequestException\<close>, and an exception of \<open>resp.json()\<close> other than
  \<open>JSONDecodeError\<close>, leave the worker on that attempt, with no row. An exception that
  leaves a worker is not converted into a row: when nothing fails outside the workers
  (positive worker count, file opened, futures submitted, no write or print raises),
  the futures collected first returned rows and the next one raised \<open>x\<close> (an exception
  of the program: not the case the model leaves open), then \<open>main\<close> ends with \<open>x\<close>; the
  file holds the header and the rows collected before, and nothing for that identifier
  or for the futures still to be collected.
\<close>

theorem worker_exception_stops_collection:
  assumes "ids \<noteq> []" and "k < length order" and "\<forall>j\<le>k. order ! j < length ids"
    and "\<forall>j<k. snd (fetch_payment repr (nets (order ! j)) (ids ! (order ! j)) retries (6 / 5))
                 = Inr (out j)"
    and "snd (fetch_payment repr (nets (order ! k)) (ids ! (order ! k)) retries (6 / 5)) = Inl x"
    and "x \<noteq> Undetermined"
    and workers: "0 < workers"
    and opened: "open_error io = None"
    and submitted: "submit_error io = None"
    and writes: "\<forall>n r. write_error io n r = None"
    and prints: "\<forall>n. print_error io n = None"
  shows "(\<forall>net pid m b a rest y. net a = OtherException y
            \<longrightarrow> fetch_loop repr net pid m b (a # rest) = ([Get a], Raised y))
       \<and> (\<forall>net pid m b a rest resp y.
            net a = Response resp \<and> startswith (content_type resp) ''application/json''
              \<and> resp_json resp = JsonRaises y
            \<longrightarrow> fetch_loop repr net pid m b (a # rest) = ([Get a], Raised y))
       \<and> (\<exists>st. main repr nets io workers retries ids order = Ran st (Some x)
            \<and> csvfile st = Header # map Data (map out [0..<k])
            \<and> processed st = k)"
proof (intro conjI allI impI)
  fix net :: "int \<Rightarrow> get_result" and pid m b a rest y
  assume "net a = OtherException y"
  then show "fetch_loop repr net pid m b (a # rest) = ([Get a], Raised y)"
    by (simp add: attempt_body_def)
next
  fix net :: "int \<Rightarrow> get_result" and pid m b a rest resp y
  assume "net a = Response resp \<and> startswith (content_type resp) ''application/json''
              \<and> resp_json resp = JsonRaises y"
  then show "fetch_loop repr net pid m b (a # rest) = ([Get a], Raised y)"
    using json_exception_leaves_worker by blast
next
  let ?futures = "map (\<lambda>(i, pid). snd (fetch_payment repr (nets i) pid retries (6 / 5)))
                      (enumerate 0 ids)"
  let ?init = "\<lparr>csvfile = [Header], processed = 0, progress = []\<rparr>"
  have split: "order = take k order @ order ! k # drop (Suc k) order"
    using assms(2) by (rule id_take_nth_drop)
  have before: "map (\<lambda>i. ?futures ! i) (take k order) = map Inr (map out [0..<k])"
    using assms(2,3,4) by (auto simp: list_eq_iff_nth_eq nth_enumerate_eq)
  have at: "?futures ! (order ! k) = Inl x"
    using assms(3,5) by (simp add: nth_enumerate_eq)
  have "map (\<lambda>i. ?futures ! i) order
        = map (\<lambda>i. ?futures ! i) (take k order) @ ?futures ! (order ! k)
            # map (\<lambda>i. ?futures ! i) (drop (Suc k) order)"
    by (subst split) (simp only: map_append list.map)
  then have results: "map (\<lambda>i. ?futures ! i) order
        = map Inr (map out [0..<k]) @ Inl x # map (\<lambda>i. ?futures ! i) (drop (Suc k) order)"
    by (simp only: before at)
  have unfold_main: "main repr nets io workers retries ids order =
      (case collect io (length ids) (map (\<lambda>i. ?futures ! i) order) ?init of (st, x) \<Rightarrow> Ran st x)"
    using assms(1) workers opened submitted by (simp add: main_def Let_def)
  from collect_prefix[OF writes prints, of "length ids" "map out [0..<k]"
         "Inl x # map (\<lambda>i. ?futures ! i) (drop (Suc k) order)" ?init]
  obtain st' where coll: "collect io (length ids)
        (map Inr (map out [0..<k]) @ Inl x # map (\<lambda>i. ?futures ! i) (drop (Suc k) order)) ?init
        = (st', Some x)"
    and written: "csvfile st' = Header # map Data (map out [0..<k])" and cnt: "processed st' = k"
    by auto
  have "main repr nets io workers retries ids order = Ran st' (Some x)"
    by (simp only: unfold_main results coll prod.case)
  with written cnt show "\<exists>st. main repr nets io workers retries ids order = Ran st (Some x)
            \<and> csvfile st = Header # map Data (map out [0..<k])
            \<and> processed st = k" by blast
qed

theorem worker_exception_stops_collection_witness:
  "\<exists>st. main (\<lambda>v. [])
           (\<lambda>i attempt. if i = 0
              then OtherException (Unexpected ''MemoryError'')
              else Response \<lparr>status_code = 200, headers = [(''Content-Type'', ''application/json'')],
                     resp_text = ''{}'', resp_json = Decoded (JObj [])\<rparr>)
           io_ok 5 3 [''A'', ''B''] [1, 0]
        = Ran st (Some (Unexpected ''MemoryError''))
      \<and> csvfile st = [Header, Data \<lparr>payment_id = ''B'', order_id = '''', external_reference = '''',
                                     http_status = 200, error = ''''\<rparr>]
      \<and> processed st = 1"
proof -
  let ?nets = "\<lambda>(i::nat) (attempt::int). if i = 0
              then OtherException (Unexpected ''MemoryError'')
              else Response \<lparr>status_code = 200, headers = [(''Content-Type'', ''application/json'')],
                     resp_text = ''{}'', resp_json = Decoded (JObj [])\<rparr>"
  let ?out = "\<lambda>j::nat. \<lparr>payment_id = ''B'', order_id = '''', external_reference = '''',
                      http_status = 200, error = ''''\<rparr>"
  have h1: "[''A'', ''B''] \<noteq> []" by simp
  have h2: "(1::nat) < length [1, 0::nat]" by simp
  have h3: "\<forall>j\<le>1. [1, 0::nat] ! j < length [''A'', ''B'']" by (simp add: le_Suc_eq)
  have h4: "\<forall>j<1. snd (fetch_payment (\<lambda>v. []) (?nets ([1, 0] ! j)) ([''A'', ''B''] ! ([1, 0] ! j)) 3 (6 / 5))
                 = Inr (?out j)"
    by (simp add: fetch_eval)
  have h5: "snd (fetch_payment (\<lambda>v. []) (?nets ([1, 0] ! 1)) ([''A'', ''B''] ! ([1, 0] ! 1)) 3 (6 / 5))
              = Inl (Unexpected ''MemoryError'')"
    by (simp add: fetch_eval)
  have h6: "(0::int) < 5" by simp
  have h7: "open_error io_ok = None" by (simp add: io_ok_def)
  have h7': "submit_error io_ok = None" by (simp add: io_ok_def)
  have h5': "Unexpected ''MemoryError'' \<noteq> Undetermined" by simp
  have h8: "\<forall>n r. write_error io_ok n r = None" by (simp add: io_ok_def)
  have h9: "\<forall>n. print_error io_ok n = None" by (simp add: io_ok_def)
  from worker_exception_stops_collection[OF h1 h2 h3 h4 h5 h5' h6 h7 h7' h8 h9, THEN conjunct2, THEN conjunct2]
  show ?thesis by simp
qed

text \<open>
  C2 as stated fails: the worker of \<open>A\<close> raises \<open>RecursionError\<close> (its reply is a JSON
  body nested 2000 deep) and completes first. No row is written for \<open>A\<close>, and the row
  of \<open>B\<close>, whose worker returned one, is never written either.
\<close>

theorem sibling_row_dropped_counterexample:
  "main (\<lambda>v. [])
     (\<lambda>i attempt. if i = 0
        then Response \<lparr>status_code = 200, headers = [(''Content-Type'', ''application/json'')],
               resp_text = replicate 2000 (CHR ''['') @ replicate 2000 (CHR '']''),
               resp_json = JsonRaises RecursionError\<rparr>
        else Response \<lparr>status_code = 200, headers = [(''Content-Type'', ''application/json'')],
               resp_text = ''{}'', resp_json = Decoded (JObj [])\<rparr>)
     io_ok 5 3 [''A'', ''B''] [0, 1]
   = Ran \<lparr>csvfile = [Header], processed = 0, progress = []\<rparr> (Some RecursionError)"
  by (simp add: main_def enumerate_eq_zip fetch_eval io_ok_def)

subsection \<open>C3: the delay before a retry\<close>

text \<open>
  C3, at the input where the code departs from it. The reply to attempt 1 of 3 is a 429
  whose \<open>Retry-After\<close> is the one character U+00B2 (superscript two), which is not a
  non-negative integer string, so the claim has the worker sleep \<open>backoff ^ 1\<close> and
  issue attempt 2. But \<open>isdigit\<close> accepts the character, \<open>float\<close> rejects it, and the
  worker ends on attempt 1 with \<open>ValueError\<close>, without sleeping or retrying. (For a
  header of ASCII digits, and for an absent header or one that \<open>isdigit\<close> rejects,
  the worker sleeps as the claim says when \<open>time.sleep\<close> accepts the duration:
  \<open>retry_after_sleep\<close> and \<open>retry_backoff_sleep\<close>.)
\<close>

theorem retry_after_superscript_raises:
  "fetch_payment repr
     (\<lambda>attempt. Response \<lparr>status_code = 429, headers = [(''Retry-After'', [CHR 0xB2])],
                           resp_text = [], resp_json = JSONDecodeError\<rparr>)
     pid 3 (6 / 5)
   = ([Get 1], Inl (ValueError [CHR 0xB2]))"
  by (simp add: fetch_payment_def upto_rec1 attempt_body_def on_response_def parse_body_def content_type_def
        retryable_def retry_delay_def isdigit_def isdigit_char_def ascii_digit_def py_float_def startswith_def lower_char_def)

subsection \<open>C4: the fields of a success\<close>

text \<open>
  C4, as amended. For every 2xx response whose content type starts with
  \<open>application/json\<close> and whose decoded body is a mapping, the loop returns on that
  attempt, without sleeping, a row with empty \<open>error\<close>; \<open>order_id\<close> is the \<open>str\<close> of the
  \<open>id\<close> of the nested \<open>order\<close> mapping when \<open>order\<close> is a mapping and its \<open>id\<close> is
  present and truthy, and empty otherwise; \<open>external_reference\<close> is the \<open>str\<close> of the
  top-level field when it is present and truthy, and empty otherwise.
\<close>

theorem success_outcome_fields:
  assumes "net a = Response resp"
    and "200 \<le> status_code resp" and "status_code resp < 300"
    and "startswith (content_type resp) ''application/json''"
    and "resp_json resp = Decoded (JObj kvs)"
  shows "fetch_loop repr net pid m b (a # rest) =
    ([Get a], Returned \<lparr>payment_id = pid,
       order_id = (if is_dict (dict_get (JObj kvs) ''order'')
                      \<and> truthy (dict_get (dict_get (JObj kvs) ''order'') ''id'')
                   then py_str repr (dict_get (dict_get (JObj kvs) ''order'') ''id'') else ''''),
       external_reference = (if truthy (dict_get (JObj kvs) ''external_reference'')
                   then py_str repr (dict_get (JObj kvs) ''external_reference'') else ''''),
       http_status = status_code resp, error = ''''\<rparr>)"
proof -
  from assms(1) have "attempt_body repr pid m b a (net a) = on_response repr pid m b a resp"
    by (simp add: attempt_body_def)
  also note on_response_success[OF assms(2-5)]
  finally show ?thesis by simp
qed

text \<open>The body of the specification's example gives the row it names.\<close>

theorem success_outcome_fields_witness:
  "fetch_payment (\<lambda>v. [])
     (\<lambda>attempt. Response \<lparr>status_code = 200, headers = [(''Content-Type'', ''application/json'')],
        resp_text = [],
        resp_json = Decoded (JObj [(''order'', JObj [(''id'', JStr ''123'')]),
                                (''external_reference'', JStr ''ref-9'')])\<rparr>)
     ''A'' 3 (6 / 5)
   = ([Get 1], Inr \<lparr>payment_id = ''A'', order_id = ''123'', external_reference = ''ref-9'',
                     http_status = 200, error = ''''\<rparr>)"
  using success_outcome_fields[of
     "\<lambda>attempt. Response \<lparr>status_code = 200, headers = [(''Content-Type'', ''application/json'')],
        resp_text = [],
        resp_json = Decoded (JObj [(''order'', JObj [(''id'', JStr ''123'')]),
                                (''external_reference'', JStr ''ref-9'')])\<rparr>"
     1 _ "[(''order'', JObj [(''id'', JStr ''123'')]), (''external_reference'', JStr ''ref-9'')]"
     "\<lambda>v. []" "''A''" 3 "6 / 5" "[2, 3]"]
  by (simp add: fetch_payment_def upto_rec1 content_type_def startswith_def lower_char_def)

text \<open>
  C4 as stated fails: the nested \<open>order\<close> mapping exists and its \<open>id\<close> is \<open>0\<close>, whose
  \<open>str\<close> is \<open>0\<close>, yet \<open>order_id\<close> is empty.
\<close>

theorem falsy_id_counterexample:
  "fetch_payment (\<lambda>v. [])
     (\<lambda>attempt. Response \<lparr>status_code = 200, headers = [(''Content-Type'', ''application/json'')],
        resp_text = [],
        resp_json = Decoded (JObj [(''order'', JObj [(''id'', JInt 0)]),
                                (''external_reference'', JStr ''ref-9'')])\<rparr>)
     ''A'' 3 (6 / 5)
   = ([Get 1], Inr \<lparr>payment_id = ''A'', order_id = '''', external_reference = ''ref-9'',
                     http_status = 200, error = ''''\<rparr>)
   \<and> py_str (\<lambda>v. []) (JInt 0) = ''0''"
  by (simp add: fetch_eval str_int_0)

subsection \<open>C5: statuses that are neither 2xx nor retried\<close>




subsection \<open>C6: a 500 on the last attempt\<close>




subsection \<open>C7: transport failures\<close>

text \<open>
  C7, as amended. Let \<open>sess.get\<close> raise a \<open>requests.RequestException\<close> with message
  \<open>msg\<close> on attempt \<open>a\<close> (at least 1), and let the backoff base be non-negative (\<open>main\<close>
  passes 1.2). If \<open>a\<close> is below \<open>max_retries\<close> and \<open>backoff ^ a\<close> is a duration that
  \<open>time.sleep\<close> accepts (at most \<open>2 ^ 62\<close> nanoseconds, about 4.6e9 seconds), the worker
  sleeps \<open>backoff ^ a\<close> and then issues attempt \<open>a + 1\<close>; what follows is the rest of
  the loop. If \<open>a\<close> equals \<open>max_retries\<close>, the worker returns a row with \<open>http_status\<close>
  0, empty order and reference fields, and an \<open>error\<close> in which \<open>msg\<close> occurs.
\<close>

theorem transport_failure:
  assumes "net a = RequestException msg" and "1 \<le> a" and "0 \<le> b"
  shows "(a < m \<and> b ^ nat a \<le> sleep_safe \<longrightarrow>
            fetch_loop repr net pid m b [a..m] =
              (Get a # Sleep (b ^ nat a) # fst (fetch_loop repr net pid m b [a + 1..m]),
               snd (fetch_loop repr net pid m b [a + 1..m]))
            \<and> (\<exists>evs. fst (fetch_loop repr net pid m b [a + 1..m]) = Get (a + 1) # evs))
       \<and> (a = m \<longrightarrow>
            fetch_loop repr net pid m b [a..m] =
              ([Get a], Returned (failure_row pid 0 (''Request failed: '' @ msg)))
            \<and> contains (''Request failed: '' @ msg) msg)"
proof (intro conjI impI)
  assume h: "a < m \<and> b ^ nat a \<le> sleep_safe"
  then have step: "[a..m] = a # [a + 1..m]" by (simp add: upto_rec1)
  from assms(1,3) h have "attempt_body repr pid m b a (net a) = ([Sleep (b ^ nat a)], Continue)"
    by (simp add: attempt_body_def on_request_exception_def backoff_sleep_ok)
  then show "fetch_loop repr net pid m b [a..m] =
              (Get a # Sleep (b ^ nat a) # fst (fetch_loop repr net pid m b [a + 1..m]),
               snd (fetch_loop repr net pid m b [a + 1..m]))"
    unfolding step by (simp split: prod.splits)
  from h have "[a + 1..m] = (a + 1) # [a + 1 + 1..m]" by (simp add: upto_rec1)
  then show "\<exists>evs. fst (fetch_loop repr net pid m b [a + 1..m]) = Get (a + 1) # evs"
    using fetch_loop_starts_with_Get[of repr net pid m b "a + 1" "[a + 1 + 1..m]"] by simp
next
  assume eq: "a = m"
  then have step: "[a..m] = [a]" by simp
  from assms(1) eq have "attempt_body repr pid m b a (net a) =
      ([], Return (failure_row pid 0 (''Request failed: '' @ msg)))"
    by (simp add: attempt_body_def on_request_exception_def)
  then show "fetch_loop repr net pid m b [a..m] =
              ([Get a], Returned (failure_row pid 0 (''Request failed: '' @ msg)))"
    unfolding step by simp
next
  show "contains (''Request failed: '' @ msg) msg" by (rule contains_append)
qed

theorem transport_failure_witness:
  "fetch_payment (\<lambda>v. []) (\<lambda>attempt. RequestException ''timed out'') ''A'' 2 (6 / 5)
   = ([Get 1, Sleep (6 / 5), Get 2],
      Inr \<lparr>payment_id = ''A'', order_id = '''', external_reference = '''',
            http_status = 0, error = ''Request failed: timed out''\<rparr>)
   \<and> contains ''Request failed: timed out'' ''timed out''"
proof -
  have b: "(0::rat) \<le> 6 / 5" by simp
  have n: "(\<lambda>attempt::int. RequestException ''timed out'') a = RequestException ''timed out''" for a
    by simp
  have one: "(1::int) \<le> 1" and two: "(1::int) \<le> 2" by simp_all
  have safe: "(6 / 5 :: rat) ^ nat 1 \<le> sleep_safe" by (simp add: sleep_safe_def)
  from transport_failure[OF n one b, of 2 "\<lambda>v. []" "''A''"]
       transport_failure[OF n two b, of 2 "\<lambda>v. []" "''A''"] safe
  show ?thesis by (simp add: fetch_payment_def)
qed

text \<open>
  C7 as stated fails where the sleep is refused: with a base of 1e10 on attempt 1 of 2,
  and with the base 1.2 of \<open>main\<close> on attempt 126 of 127 (1.2 ^ 126 is about 9.48e9
  seconds), \<open>time.sleep\<close> raises \<open>OverflowError\<close> inside the handler and the worker
  raises instead of retrying.
\<close>

theorem backoff_overflow_counterexample:
  "fetch_payment (\<lambda>v. []) (\<lambda>attempt. RequestException ''timed out'') ''A'' 2 10000000000
     = ([Get 1], Inl OverflowError)
   \<and> fetch_loop (\<lambda>v. []) (\<lambda>attempt. RequestException ''timed out'') ''A'' 127 (6 / 5) [126..127]
     = ([Get 126], Raised OverflowError)"
proof
  show "fetch_payment (\<lambda>v. []) (\<lambda>attempt. RequestException ''timed out'') ''A'' 2 10000000000
     = ([Get 1], Inl OverflowError)"
    by (simp add: fetch_eval)
  have "attempt_body (\<lambda>v. []) ''A'' 127 (6 / 5) 126 (RequestException ''timed out'')
          = ([], Raise OverflowError)"
    using backoff_sleep_overflow[of "6 / 5" 126] backoff_126_overflows
    by (simp add: attempt_body_def on_request_exception_def)
  then show "fetch_loop (\<lambda>v. []) (\<lambda>attempt. RequestException ''timed out'') ''A'' 127 (6 / 5) [126..127]
     = ([Get 126], Raised OverflowError)"
    by (simp add: upto_rec1)
qed

subsection \<open>C8: a 2xx whose body is not a decoded mapping\<close>




subsection \<open>C9: the fallback after the loop\<close>

text \<open>
  C9, at the input where the code departs from it. With \<open>max_retries = 0\<close> the range
  of the loop is empty: no request is made, and whatever the network, the identifier and
  the backoff, \<open>fetch_payment\<close> returns the fallback row (status 0, \<open>Exhausted
  retries\<close>) that the claim, and the comment on it in the source, hold to be out of
  reach. (For \<open>max_retries\<close> of at least 1 the loop never runs out:
  \<open>fetch_payment_in_loop\<close>.)
\<close>

theorem zero_retries_reaches_fallback:
  "fetch_payment repr net pid 0 b = ([], Inr (fallback_row pid))"
  by (simp add: fetch_payment_def)

subsection \<open>C10: falsy fields on the success path\<close>

text \<open>
  C10. On the success path (a 2xx response with a JSON content type whose decoded body
  is a mapping), let \<open>v\<close> be \<open>null\<close>, \<open>0\<close>, \<open>false\<close> or the empty string. If the \<open>id\<close> of
  the nested \<open>order\<close> mapping is \<open>v\<close>, then \<open>order_id\<close> is empty; if the top-level
  \<open>external_reference\<close> is \<open>v\<close>, then \<open>external_reference\<close> is empty. This is not the
  \<open>str\<close> of \<open>v\<close>, which for the first three is \<open>None\<close>, \<open>0\<close> or \<open>False\<close>.
\<close>

theorem falsy_fields_empty:
  assumes "net a = Response resp"
    and "200 \<le> status_code resp" and "status_code resp < 300"
    and "startswith (content_type resp) ''application/json''"
    and "resp_json resp = Decoded (JObj kvs)"
    and "v \<in> {JNull, JInt 0, JBool False, JStr ''''}"
  shows "\<exists>r. fetch_loop repr net pid m b (a # rest) = ([Get a], Returned r)
           \<and> error r = ''''
           \<and> (map_of kvs ''order'' = Some (JObj okvs) \<and> map_of okvs ''id'' = Some v
                \<longrightarrow> order_id r = '''')
           \<and> (map_of kvs ''external_reference'' = Some v \<longrightarrow> external_reference r = '''')
           \<and> (v \<noteq> JStr '''' \<longrightarrow> py_str repr v \<in> {''None'', ''0'', ''False''})"
proof -
  from assms(6) have falsy: "\<not> truthy v" by auto
  from assms(1) have "attempt_body repr pid m b a (net a) = on_response repr pid m b a resp"
    by (simp add: attempt_body_def)
  also note on_response_success[OF assms(2-5)]
  finally have "fetch_loop repr net pid m b (a # rest) =
    ([Get a], Returned \<lparr>payment_id = pid,
       order_id = (if is_dict (dict_get (JObj kvs) ''order'')
                      \<and> truthy (dict_get (dict_get (JObj kvs) ''order'') ''id'')
                   then py_str repr (dict_get (dict_get (JObj kvs) ''order'') ''id'') else ''''),
       external_reference = (if truthy (dict_get (JObj kvs) ''external_reference'')
                   then py_str repr (dict_get (JObj kvs) ''external_reference'') else ''''),
       http_status = status_code resp, error = ''''\<rparr>)"
    by simp
  moreover have "py_str repr v \<in> {''None'', ''0'', ''False''}" if "v \<noteq> JStr ''''"
    using assms(6) that by (auto simp: str_int_0)
  ultimately show ?thesis using falsy by auto
qed

theorem falsy_fields_empty_witness:
  "fetch_payment (\<lambda>v. [])
     (\<lambda>attempt. Response \<lparr>status_code = 200, headers = [(''content-type'', ''application/json; charset=utf-8'')],
        resp_text = [],
        resp_json = Decoded (JObj [(''order'', JObj [(''id'', JBool False)]),
                                (''external_reference'', JBool False)])\<rparr>)
     ''A'' 3 (6 / 5)
   = ([Get 1], Inr \<lparr>payment_id = ''A'', order_id = '''', external_reference = '''',
                     http_status = 200, error = ''''\<rparr>)
   \<and> py_str (\<lambda>v. []) (JBool False) = ''False''"
proof -
  let ?net = "\<lambda>attempt::int. Response \<lparr>status_code = 200,
        headers = [(''content-type'', ''application/json; charset=utf-8'')],
        resp_text = [],
        resp_json = Decoded (JObj [(''order'', JObj [(''id'', JBool False)]),
                                (''external_reference'', JBool False)])\<rparr>"
  from falsy_fields_empty[where net = ?net and a = 1 and v = "JBool False"
       and kvs = "[(''order'', JObj [(''id'', JBool False)]), (''external_reference'', JBool False)]"
       and okvs = "[(''id'', JBool False)]" and repr = "\<lambda>v. []" and pid = "''A''" and m = 3
       and b = "6 / 5" and rest = "[2, 3]"]
  obtain r where "fetch_loop (\<lambda>v. []) ?net ''A'' 3 (6 / 5) (1 # [2, 3]) = ([Get 1], Returned r)"
    and "error r = ''''" and "order_id r = ''''" and "external_reference r = ''''"
    by (auto simp: content_type_def startswith_def lower_char_def)
  moreover from this(1) have "payment_id r = ''A''" and "http_status r = 200"
    by (auto simp: attempt_body_def on_response_def parse_body_def content_type_def startswith_def
          lower_char_def retryable_def Let_def split: if_splits)
  ultimately have "fetch_loop (\<lambda>v. []) ?net ''A'' 3 (6 / 5) [1, 2, 3]
      = ([Get 1], Returned \<lparr>payment_id = ''A'', order_id = '''', external_reference = '''',
                     http_status = 200, error = ''''\<rparr>)"
    by (cases r) simp
  then show ?thesis by (simp add: fetch_payment_def upto_rec1)
qed

end
